theory Spec2Isabelle
  imports Complex_Main "HOL-Library.Multiset"
begin

section \<open>Go primitives used by package ec2pricing\<close>

subsection \<open>float64\<close>

text \<open>
  A \<open>float64\<close> is modelled by its IEEE special values and, for a finite value, the real
  number it stands for. Rounding and overflow of finite results are not modelled. There
  is one zero; as a divisor it acts as \<open>+0\<close>, which is the only zero a divisor of this
  package can be (a count, or the minutes of a non-negative duration).
\<close>

datatype float64 = Fin real | PInf | NInf | NaN

fun f64_add :: "float64 \<Rightarrow> float64 \<Rightarrow> float64" where
  "f64_add (Fin a) (Fin b) = Fin (a + b)"
| "f64_add NaN y = NaN"
| "f64_add x NaN = NaN"
| "f64_add PInf NInf = NaN"
| "f64_add NInf PInf = NaN"
| "f64_add PInf y = PInf"
| "f64_add x PInf = PInf"
| "f64_add NInf y = NInf"
| "f64_add x NInf = NInf"

fun f64_mul :: "float64 \<Rightarrow> float64 \<Rightarrow> float64" where
  "f64_mul (Fin a) (Fin b) = Fin (a * b)"
| "f64_mul NaN y = NaN"
| "f64_mul x NaN = NaN"
| "f64_mul PInf (Fin b) = (if b = 0 then NaN else if 0 < b then PInf else NInf)"
| "f64_mul NInf (Fin b) = (if b = 0 then NaN else if 0 < b then NInf else PInf)"
| "f64_mul (Fin a) PInf = (if a = 0 then NaN else if 0 < a then PInf else NInf)"
| "f64_mul (Fin a) NInf = (if a = 0 then NaN else if 0 < a then NInf else PInf)"
| "f64_mul PInf PInf = PInf"
| "f64_mul PInf NInf = NInf"
| "f64_mul NInf PInf = NInf"
| "f64_mul NInf NInf = PInf"

fun f64_div :: "float64 \<Rightarrow> float64 \<Rightarrow> float64" where
  "f64_div (Fin a) (Fin b) =
     (if b \<noteq> 0 then Fin (a / b)
      else if a = 0 then NaN
      else if 0 < a then PInf else NInf)"
| "f64_div NaN y = NaN"
| "f64_div x NaN = NaN"
| "f64_div (Fin a) PInf = Fin 0"
| "f64_div (Fin a) NInf = Fin 0"
| "f64_div PInf (Fin b) = (if 0 \<le> b then PInf else NInf)"
| "f64_div NInf (Fin b) = (if 0 \<le> b then NInf else PInf)"
| "f64_div PInf PInf = NaN"
| "f64_div PInf NInf = NaN"
| "f64_div NInf PInf = NaN"
| "f64_div NInf NInf = NaN"

subsection \<open>time.Time and time.Duration\<close>

text \<open>
  An instant is its number of nanoseconds since the epoch; a \<open>Duration\<close> is an int64
  count of nanoseconds. \<open>Time.Sub\<close> saturates at the least and greatest Duration, and
  \<open>Duration.Minutes\<close> is the duration over \<open>60 * 10^9\<close> as a float64.
\<close>

type_synonym Time = int

type_synonym Duration = int

definition minDuration :: Duration where
  "minDuration = - (2 ^ 63)"

definition maxDuration :: Duration where
  "maxDuration = 2 ^ 63 - 1"

definition After :: "Time \<Rightarrow> Time \<Rightarrow> bool" where
  "After t u = (u < t)"

definition Sub :: "Time \<Rightarrow> Time \<Rightarrow> Duration" where
  "Sub t u =
     (let d = t - u
      in if d < minDuration then minDuration
         else if maxDuration < d then maxDuration
         else d)"

definition Minutes :: "Duration \<Rightarrow> float64" where
  "Minutes d = Fin (real_of_int d / 60000000000)"

text \<open>Arithmetic on int and on Duration wraps around at 64 bits.\<close>

definition wrap64 :: "int \<Rightarrow> int" where
  "wrap64 x = (x + 2 ^ 63) mod 2 ^ 64 - 2 ^ 63"

definition Hour :: Duration where
  "Hour = 3600000000000"

subsection \<open>strings\<close>

fun strings_HasPrefix :: "string \<Rightarrow> string \<Rightarrow> bool" where
  "strings_HasPrefix s [] = True"
| "strings_HasPrefix [] (c # p) = False"
| "strings_HasPrefix (a # s) (c # p) = (a = c \<and> strings_HasPrefix s p)"

fun strings_Contains :: "string \<Rightarrow> string \<Rightarrow> bool" where
  "strings_Contains [] substr = (substr = [])"
| "strings_Contains (a # s) substr =
     (strings_HasPrefix (a # s) substr \<or> strings_Contains s substr)"

fun strings_Join :: "string list \<Rightarrow> string \<Rightarrow> string" where
  "strings_Join [] sep = []"
| "strings_Join [e] sep = e"
| "strings_Join (e # e' # elems) sep = e @ sep @ strings_Join (e' # elems) sep"

subsection \<open>Errors\<close>

text \<open>
  The error values of the package: \<open>fmt.Errorf\<close> with a fixed message, the
  \<open>*strconv.NumError\<close> of a failed \<open>ParseFloat\<close> (with the rejected input), an error of the
  AWS client, and the combined error of \<open>go.uber.org/multierr\<close>. A Go \<open>error\<close> that may
  be nil is an \<open>error option\<close>.
\<close>

datatype error =
    errorString string
  | NumError string
  | awsError string
  | multiError "error list"

fun extractErrors :: "error \<Rightarrow> error list" where
  "extractErrors (multiError es) = es"
| "extractErrors e = [e]"

fun multierr_Append :: "error option \<Rightarrow> error option \<Rightarrow> error option" where
  "multierr_Append None right = right"
| "multierr_Append (Some l) None = Some l"
| "multierr_Append (Some l) (Some r) = Some (multiError (extractErrors l @ extractErrors r))"

text \<open>A call either returns or panics (a failed type assertion of the single-value form).\<close>

datatype 'a outcome = Panic | Returns 'a

section \<open>The spot averager\<close>

record spotPricingEntry =
  Timestamp :: Time
  SpotPrice :: float64

text \<open>
  \<open>sort.Slice\<close> with \<open>less i j = entries[i].Timestamp.After(entries[j].Timestamp)\<close>:
  newest first. \<open>sort.Slice\<close> promises no order for entries with equal timestamps; here
  they keep their order of arrival, as the insertion sort of the library leaves them.
\<close>

fun insert_After :: "spotPricingEntry \<Rightarrow> spotPricingEntry list \<Rightarrow> spotPricingEntry list" where
  "insert_After x [] = [x]"
| "insert_After x (y # ys) =
     (if After (Timestamp x) (Timestamp y) then x # y # ys else y # insert_After x ys)"

definition sort_Slice_After :: "spotPricingEntry list \<Rightarrow> spotPricingEntry list" where
  "sort_Slice_After entries = fold insert_After entries []"

definition calculateSpotAggregate :: "spotPricingEntry list \<Rightarrow> float64" where
  "calculateSpotAggregate spotPriceEntries =
     (if length spotPriceEntries = 0 then Fin 0
      else
        let sorted = sort_Slice_After spotPriceEntries;
            endTime = Timestamp (sorted ! 0);
            startTime = Timestamp (sorted ! (length sorted - 1));
            totalDuration = Minutes (Sub endTime startTime);
            priceSum =
              fold
                (\<lambda>i priceSum.
                   let entry = sorted ! i;
                       duration =
                         Minutes (Sub (Timestamp (sorted ! nat (max (int i - 1) 0)))
                                      (Timestamp entry))
                   in f64_add priceSum (f64_mul duration (SpotPrice entry)))
                [0 ..< length sorted] (Fin 0)
        in f64_div priceSum totalDuration)"

text \<open>
  Lines 129-141 of \<open>GetSpotInstanceTypeNDayAvgCost\<close>: the loop over the zones of the
  working set and the final division. The working set is an association list, one pair
  per zone; the loop runs over it in list order (Go picks an order of its own, which
  changes nothing for a sum of reals). The count of zones is far from the end of \<open>int\<close>
  and is not wrapped.
\<close>

definition averageZones ::
  "string list \<Rightarrow> (string \<times> spotPricingEntry list) list \<Rightarrow> float64" where
  "averageZones availabilityZones zoneToPriceEntries =
     (let (aggregateZonePriceSum, numOfZones) =
            fold
              (\<lambda>(zone, priceEntries) (aggregateZonePriceSum, numOfZones).
                 if length availabilityZones \<noteq> 0 \<and>
                    \<not> strings_Contains (strings_Join availabilityZones '' '') zone
                 then (aggregateZonePriceSum, numOfZones)
                 else (f64_add aggregateZonePriceSum (calculateSpotAggregate priceEntries),
                       numOfZones + 1))
              zoneToPriceEntries (Fin 0, 0 :: int)
      in f64_div aggregateZonePriceSum (Fin (real_of_int numOfZones)))"

section \<open>The pricing document parser\<close>

text \<open>
  An \<open>aws.JSONValue\<close> is a \<open>map[string]interface{}\<close> holding decoded JSON. An object is an
  association list; a key is looked up with \<open>map_of\<close>, and a loop over an object runs in
  list order.
\<close>

datatype json =
    JNull
  | JBool bool
  | JNumber real
  | JString string
  | JArray "json list"
  | JObject "(string \<times> json) list"

type_synonym JSONValue = "(string \<times> json) list"

text \<open>The type assertions \<open>v.(map[string]interface{})\<close> and \<open>v.(string)\<close>: None when they fail.\<close>

fun asObject :: "json \<Rightarrow> (string \<times> json) list option" where
  "asObject (JObject m) = Some m"
| "asObject v = None"

fun asString :: "json \<Rightarrow> string option" where
  "asString (JString s) = Some s"
| "asString v = None"

type_synonym parsed = "string \<times> float64 \<times> error option"

text \<open>Lines 337-351: the body of the inner loop, which returns in its first iteration.\<close>

definition parseDimension ::
  "(string \<Rightarrow> error + float64) \<Rightarrow> string \<Rightarrow> json \<Rightarrow> parsed outcome" where
  "parseDimension ParseFloat instanceTypeName dimension =
     (case asObject dimension of
        None \<Rightarrow> Panic
      | Some dims \<Rightarrow>
          (case map_of dims ''pricePerUnit'' of
             None \<Rightarrow>
               Returns (instanceTypeName, Fin (- 1),
                 Some (errorString ''Unable to find on-demand price per unit in pricing dimensions''))
           | Some pricePerUnit \<Rightarrow>
               (case asObject pricePerUnit of
                  None \<Rightarrow> Panic
                | Some ppu \<Rightarrow>
                    (case map_of ppu ''USD'' of
                       None \<Rightarrow>
                         Returns (instanceTypeName, Fin (- 1),
                           Some (errorString ''Unable to find on-demand price per unit in USD''))
                     | Some pricePerUnitInUSDStr \<Rightarrow>
                         (case asString pricePerUnitInUSDStr of
                            None \<Rightarrow> Panic
                          | Some str \<Rightarrow>
                              (case ParseFloat str of
                                 Inl err \<Rightarrow>
                                   Returns (instanceTypeName, Fin (- 1),
                                     Some (errorString
                                       ''Could not convert price per unit in USD to a float64''))
                               | Inr pricePerUnitInUSD \<Rightarrow>
                                   Returns (instanceTypeName, pricePerUnitInUSD, None)))))))"

text \<open>Lines 331-354: the loop over the on-demand terms, and the error after it.\<close>

fun parseTerms ::
  "(string \<Rightarrow> error + float64) \<Rightarrow> string \<Rightarrow> (string \<times> json) list \<Rightarrow> parsed outcome" where
  "parseTerms ParseFloat instanceTypeName [] =
     Returns (instanceTypeName, Fin (- 1), Some (errorString ''Unable to parse pricing doc''))"
| "parseTerms ParseFloat instanceTypeName ((termId, priceDimensions) # rest) =
     (case asObject priceDimensions of
        None \<Rightarrow> Panic
      | Some pd \<Rightarrow>
          (case map_of pd ''priceDimensions'' of
             None \<Rightarrow>
               Returns (instanceTypeName, Fin (- 1),
                 Some (errorString ''Unable to find on-demand pricing dimensions''))
           | Some dimensions \<Rightarrow>
               (case asObject dimensions of
                  None \<Rightarrow> Panic
                | Some [] \<Rightarrow> parseTerms ParseFloat instanceTypeName rest
                | Some ((dimId, dimension) # others) \<Rightarrow>
                    parseDimension ParseFloat instanceTypeName dimension)))"

text \<open>
  Line 315 asserts the type of \<open>priceList["product"]\<close> in the single-value form, so a
  record with no product, or one that is not an object, panics; so do the assertions of
  lines 319, 327, 331, 332, 336, 337, 342 and 347.
\<close>

definition parseOndemandUnitPrice ::
  "(string \<Rightarrow> error + float64) \<Rightarrow> JSONValue \<Rightarrow> parsed outcome" where
  "parseOndemandUnitPrice ParseFloat priceList =
     (case Option.bind (map_of priceList ''product'') asObject of
        None \<Rightarrow> Panic
      | Some product \<Rightarrow>
          (case map_of product ''attributes'' of
             None \<Rightarrow>
               Returns ('''', Fin (- 1), Some (errorString ''Unable to find product attributes''))
           | Some attributes \<Rightarrow>
               (case asObject attributes of
                  None \<Rightarrow> Panic
                | Some attrs \<Rightarrow>
                    (case Option.bind (map_of attrs ''instanceType'') asString of
                       None \<Rightarrow>
                         Returns ('''', Fin (- 1),
                           Some (errorString
                             ''Unable to find instance type name from product attributes''))
                     | Some instanceTypeName \<Rightarrow>
                         (case map_of priceList ''terms'' of
                            None \<Rightarrow>
                              Returns (instanceTypeName, Fin (- 1),
                                Some (errorString ''Unable to find pricing terms''))
                          | Some terms \<Rightarrow>
                              (case asObject terms of
                                 None \<Rightarrow> Panic
                               | Some ts \<Rightarrow>
                                   (case map_of ts ''OnDemand'' of
                                      None \<Rightarrow>
                                        Returns (instanceTypeName, Fin (- 1),
                                          Some (errorString
                                            ''Unable to find on-demand pricing terms''))
                                    | Some ondemandTerms \<Rightarrow>
                                        (case asObject ondemandTerms of
                                           None \<Rightarrow> Panic
                                         | Some odt \<Rightarrow>
                                             parseTerms ParseFloat instanceTypeName odt))))))))"

section \<open>The AWS clients\<close>

text \<open>
  The requests and responses of the two collaborators, with the fields the package
  reads or writes. The fields of the SDK are pointers, which the package dereferences
  unchecked; a record of the spot price history has its four fields set. A paged call is
  answered by the pages the service would deliver, in order, and by the error (if any)
  of the request after the last of them.
\<close>

record Filter =
  Type :: string
  Field :: string
  Value :: string

record GetProductsInput =
  ServiceCode :: string
  Filters :: "Filter list"

record GetProductsOutput =
  PriceList :: "JSONValue list"

record DescribeSpotPriceHistoryInput =
  ProductDescriptions :: "string list"
  StartTime :: Time
  EndTime :: Time
  InstanceTypes :: "string list"

record ec2_SpotPrice =
  history_InstanceType :: string
  history_AvailabilityZone :: string
  history_SpotPrice :: string
  history_Timestamp :: Time

record DescribeSpotPriceHistoryOutput =
  SpotPriceHistory :: "ec2_SpotPrice list"

type_synonym 'page paged = "'page list \<times> error option"

text \<open>
  \<open>GetProductsPages\<close> and \<open>DescribeSpotPriceHistoryPages\<close>: the callback \<open>fn\<close> is run on each
  page until it returns false or the pages end. When it stops the paging, the failing
  request is never sent and the call returns nil.
\<close>

fun Pages ::
  "('page \<Rightarrow> 's \<Rightarrow> ('s \<times> bool) outcome) \<Rightarrow> 'page list \<Rightarrow> error option \<Rightarrow> 's \<Rightarrow>
     ('s \<times> error option) outcome" where
  "Pages fn [] err s = Returns (s, err)"
| "Pages fn (page # rest) err s =
     (case fn page s of
        Panic \<Rightarrow> Panic
      | Returns (s', cont) \<Rightarrow> if cont then Pages fn rest err s' else Returns (s', None))"

section \<open>The price cache facade\<close>

definition productDescription :: string where
  "productDescription = ''Linux/UNIX (Amazon VPC)''"

definition serviceCode :: string where
  "serviceCode = ''AmazonEC2''"

definition FilterTypeTermMatch :: string where
  "FilterTypeTermMatch = ''TERM_MATCH''"

text \<open>
  The struct \<open>EC2Pricing\<close>. Of the session only the configured region is read. The
  on-demand cache is a map; the zones of one instance type in the spot cache are an
  association list, because the query loops over them.
\<close>

record EC2Pricing =
  PricingClient :: "GetProductsInput \<Rightarrow> GetProductsOutput paged"
  EC2Client :: "DescribeSpotPriceHistoryInput \<Rightarrow> DescribeSpotPriceHistoryOutput paged"
  AWSSession_Region :: string
  onDemandCache :: "string \<rightharpoonup> float64"
  spotCache :: "string \<rightharpoonup> (string \<times> spotPricingEntry list) list"
  lastOnDemandCacheUTC :: "Time option"
  lastSpotCacheUTC :: "Time option"

text \<open>
  \<open>New\<close>: the clients are made from the session, both caches start as nil maps and
  both timestamps as nil.
\<close>

definition New ::
  "(GetProductsInput \<Rightarrow> GetProductsOutput paged) \<Rightarrow>
   (DescribeSpotPriceHistoryInput \<Rightarrow> DescribeSpotPriceHistoryOutput paged) \<Rightarrow> string \<Rightarrow>
     EC2Pricing" where
  "New pricingClient ec2Client region =
     \<lparr>PricingClient = pricingClient,
      EC2Client = ec2Client,
      AWSSession_Region = region,
      onDemandCache = Map.empty,
      spotCache = Map.empty,
      lastOnDemandCacheUTC = None,
      lastSpotCacheUTC = None\<rparr>"

definition LastOnDemandCacheUTC :: "EC2Pricing \<Rightarrow> Time option" where
  "LastOnDemandCacheUTC p = lastOnDemandCacheUTC p"

definition LastSpotCacheUTC :: "EC2Pricing \<Rightarrow> Time option" where
  "LastSpotCacheUTC p = lastSpotCacheUTC p"

text \<open>
  \<open>getRegionForPricingAPI\<close>: \<open>partitions\<close> is the table of
  \<open>endpoints.DefaultResolver()\<close>, one association list from region id to description per
  partition.
\<close>

definition getRegionForPricingAPI :: "(string \<times> string) list list \<Rightarrow> EC2Pricing \<Rightarrow> string" where
  "getRegionForPricingAPI partitions p =
     fold
       (\<lambda>regions regionDescription.
          case map_of regions (AWSSession_Region p) of
            Some description \<Rightarrow> description
          | None \<Rightarrow> regionDescription)
       partitions ''US East (N. Virginia)''"

subsection \<open>Spot queries\<close>

text \<open>
  Lines 83-91 and 217-223: the request for the spot price history of the \<open>days\<close> before
  the clock reading \<open>now\<close>, for the given instance types (none: all of them). The product
  of \<open>int\<close>s and the product of Durations wrap; \<open>Time.Add\<close> is exact.
\<close>

definition spotPriceHistoryInput ::
  "Time \<Rightarrow> int \<Rightarrow> string list \<Rightarrow> DescribeSpotPriceHistoryInput" where
  "spotPriceHistoryInput now days instanceTypes =
     (let endTime = now;
          startTime = endTime + wrap64 (Hour * wrap64 (24 * - 1 * days))
      in \<lparr>ProductDescriptions = [productDescription],
          StartTime = startTime,
          EndTime = endTime,
          InstanceTypes = instanceTypes\<rparr>)"

text \<open>\<open>m[zone] = append(m[zone], entry)\<close> on the working set.\<close>

fun appendEntry ::
  "string \<Rightarrow> spotPricingEntry \<Rightarrow> (string \<times> spotPricingEntry list) list \<Rightarrow>
     (string \<times> spotPricingEntry list) list" where
  "appendEntry zone entry [] = [(zone, [entry])]"
| "appendEntry zone entry ((z, priceEntries) # m) =
     (if z = zone then (z, priceEntries @ [entry]) # m
      else (z, priceEntries) # appendEntry zone entry m)"

text \<open>Lines 97-109: one record of a page of spot price history.\<close>

definition spotQueryRecord ::
  "(string \<Rightarrow> error + float64) \<Rightarrow> ec2_SpotPrice \<Rightarrow>
     (string \<times> spotPricingEntry list) list \<times> error option \<Rightarrow>
     (string \<times> spotPricingEntry list) list \<times> error option" where
  "spotQueryRecord ParseFloat history st =
     (case st of (zoneToPriceEntries, processingErr) \<Rightarrow>
        (case ParseFloat (history_SpotPrice history) of
           Inl errParse \<Rightarrow> (zoneToPriceEntries, multierr_Append processingErr (Some errParse))
         | Inr spotPrice \<Rightarrow>
             (appendEntry (history_AvailabilityZone history)
                \<lparr>Timestamp = history_Timestamp history, SpotPrice = spotPrice\<rparr>
                zoneToPriceEntries,
              processingErr)))"

text \<open>Lines 119-126: the working set copied from the cached zones of the instance type.\<close>

definition cachedZonePriceEntries ::
  "(string \<times> spotPricingEntry list) list \<Rightarrow> (string \<times> spotPricingEntry list) list" where
  "cachedZonePriceEntries zones =
     fold
       (\<lambda>(zone, priceEntries) zoneToPriceEntries.
          fold
            (\<lambda>entry. appendEntry zone \<lparr>Timestamp = Timestamp entry, SpotPrice = SpotPrice entry\<rparr>)
            priceEntries zoneToPriceEntries)
       zones []"

text \<open>\<open>now\<close> is the reading of \<open>time.Now().UTC()\<close> at line 83.\<close>

definition GetSpotInstanceTypeNDayAvgCost ::
  "(string \<Rightarrow> error + float64) \<Rightarrow> Time \<Rightarrow> EC2Pricing \<Rightarrow> string \<Rightarrow> string list \<Rightarrow> int \<Rightarrow>
     EC2Pricing \<times> (float64 \<times> error option) outcome" where
  "GetSpotInstanceTypeNDayAvgCost ParseFloat now p instanceType availabilityZones days =
     (let spotPriceHistInput = spotPriceHistoryInput now days [instanceType]
      in case spotCache p instanceType of
           None \<Rightarrow>
             (case Pages
                     (\<lambda>dspho st.
                        Returns (fold (spotQueryRecord ParseFloat) (SpotPriceHistory dspho) st, True))
                     (fst (EC2Client p spotPriceHistInput))
                     (snd (EC2Client p spotPriceHistInput))
                     ([], None) of
                Panic \<Rightarrow> (p, Panic)
              | Returns ((zoneToPriceEntries, processingErr), errAPI) \<Rightarrow>
                  if errAPI \<noteq> None then (p, Returns (Fin (- 1), errAPI))
                  else if processingErr \<noteq> None then (p, Returns (Fin (- 1), processingErr))
                  else (p, Returns (averageZones availabilityZones zoneToPriceEntries, None)))
         | Some zones \<Rightarrow>
             (p, Returns (averageZones availabilityZones (cachedZonePriceEntries zones), None)))"

subsection \<open>On-demand queries\<close>

definition termMatch :: "string \<Rightarrow> string \<Rightarrow> Filter" where
  "termMatch field v = \<lparr>Type = FilterTypeTermMatch, Field = field, Value = v\<rparr>"

text \<open>Lines 174-185: the request of a query for one instance type.\<close>

definition queryProductInput :: "string \<Rightarrow> string \<Rightarrow> GetProductsInput" where
  "queryProductInput regionDescription instanceType =
     \<lparr>ServiceCode = serviceCode,
      Filters =
        [termMatch ''ServiceCode'' serviceCode,
         termMatch ''operatingSystem'' ''linux'',
         termMatch ''location'' regionDescription,
         termMatch ''capacitystatus'' ''used'',
         termMatch ''preInstalledSw'' ''NA'',
         termMatch ''tenancy'' ''shared'',
         termMatch ''instanceType'' instanceType]\<rparr>"

text \<open>Lines 260-270: the request of a hydration, for every instance type.\<close>

definition hydrateProductInput :: "string \<Rightarrow> GetProductsInput" where
  "hydrateProductInput regionDescription =
     \<lparr>ServiceCode = serviceCode,
      Filters =
        [termMatch ''ServiceCode'' serviceCode,
         termMatch ''operatingSystem'' ''linux'',
         termMatch ''location'' regionDescription,
         termMatch ''capacitystatus'' ''used'',
         termMatch ''preInstalledSw'' ''NA'',
         termMatch ''tenancy'' ''shared'']\<rparr>"

text \<open>
  Lines 189-200: the callback on one page. A record that does not parse ends the work on
  its page and asks for the next page; a page read to its end stops the paging.
\<close>

fun ondemandQueryPage ::
  "(string \<Rightarrow> error + float64) \<Rightarrow> JSONValue list \<Rightarrow> float64 \<times> error option \<Rightarrow>
     ((float64 \<times> error option) \<times> bool) outcome" where
  "ondemandQueryPage ParseFloat [] st = Returns (st, False)"
| "ondemandQueryPage ParseFloat (priceDoc # rest) st =
     (case parseOndemandUnitPrice ParseFloat priceDoc of
        Panic \<Rightarrow> Panic
      | Returns (instanceTypeName, pricePerUnitInUSD, errParse) \<Rightarrow>
          if errParse \<noteq> None
          then Returns ((pricePerUnitInUSD, multierr_Append (snd st) errParse), True)
          else ondemandQueryPage ParseFloat rest (pricePerUnitInUSD, snd st))"

definition GetOndemandInstanceTypeCost ::
  "(string \<times> string) list list \<Rightarrow> (string \<Rightarrow> error + float64) \<Rightarrow> EC2Pricing \<Rightarrow> string \<Rightarrow>
     EC2Pricing \<times> (float64 \<times> error option) outcome" where
  "GetOndemandInstanceTypeCost partitions ParseFloat p instanceType =
     (case onDemandCache p instanceType of
        Some price \<Rightarrow> (p, Returns (price, None))
      | None \<Rightarrow>
          (let regionDescription = getRegionForPricingAPI partitions p;
               productInput = queryProductInput regionDescription instanceType
           in case Pages
                     (\<lambda>pricingOutput. ondemandQueryPage ParseFloat (PriceList pricingOutput))
                     (fst (PricingClient p productInput))
                     (snd (PricingClient p productInput))
                     (Fin (- 1), None) of
                Panic \<Rightarrow> (p, Panic)
              | Returns ((pricePerUnitInUSD, processingErr), errAPI) \<Rightarrow>
                  if errAPI \<noteq> None then (p, Returns (Fin (- 1), errAPI))
                  else if processingErr \<noteq> None then (p, Returns (Fin (- 1), processingErr))
                  else (p, Returns (pricePerUnitInUSD, None))))"

subsection \<open>Hydration\<close>

text \<open>Lines 226-241: one record of a page, written into the new spot cache.\<close>

definition spotHydrateRecord ::
  "(string \<Rightarrow> error + float64) \<Rightarrow> ec2_SpotPrice \<Rightarrow>
     (string \<rightharpoonup> (string \<times> spotPricingEntry list) list) \<times> error option \<Rightarrow>
     (string \<rightharpoonup> (string \<times> spotPricingEntry list) list) \<times> error option" where
  "spotHydrateRecord ParseFloat history st =
     (case st of (newCache, processingErr) \<Rightarrow>
        (case ParseFloat (history_SpotPrice history) of
           Inl errFloat \<Rightarrow> (newCache, multierr_Append processingErr (Some errFloat))
         | Inr spotPrice \<Rightarrow>
             (let instanceType = history_InstanceType history;
                  zone = history_AvailabilityZone history;
                  zones = (case newCache instanceType of None \<Rightarrow> [] | Some zs \<Rightarrow> zs)
              in (newCache(instanceType \<mapsto>
                    appendEntry zone
                      \<lparr>Timestamp = history_Timestamp history, SpotPrice = spotPrice\<rparr> zones),
                  processingErr))))"

text \<open>
  \<open>now\<close> is the reading of the clock at line 217 and \<open>cTime\<close> the one at line 247.
\<close>

definition HydrateSpotCache ::
  "(string \<Rightarrow> error + float64) \<Rightarrow> Time \<Rightarrow> Time \<Rightarrow> EC2Pricing \<Rightarrow> int \<Rightarrow>
     EC2Pricing \<times> error option outcome" where
  "HydrateSpotCache ParseFloat now cTime p days =
     (let spotPriceHistInput = spotPriceHistoryInput now days []
      in case Pages
                (\<lambda>dspho st.
                   Returns (fold (spotHydrateRecord ParseFloat) (SpotPriceHistory dspho) st, True))
                (fst (EC2Client p spotPriceHistInput))
                (snd (EC2Client p spotPriceHistInput))
                (Map.empty, None) of
           Panic \<Rightarrow> (p, Panic)
         | Returns ((newCache, processingErr), errAPI) \<Rightarrow>
             if errAPI \<noteq> None then (p, Returns errAPI)
             else (p\<lparr>spotCache := newCache, lastSpotCacheUTC := Some cTime\<rparr>,
                   Returns processingErr))"

text \<open>Lines 273-281: the records of one page, written into the new on-demand cache.\<close>

fun ondemandHydratePage ::
  "(string \<Rightarrow> error + float64) \<Rightarrow> JSONValue list \<Rightarrow> (string \<rightharpoonup> float64) \<times> error option \<Rightarrow>
     (((string \<rightharpoonup> float64) \<times> error option) \<times> bool) outcome" where
  "ondemandHydratePage ParseFloat [] st = Returns (st, True)"
| "ondemandHydratePage ParseFloat (priceDoc # rest) st =
     (case parseOndemandUnitPrice ParseFloat priceDoc of
        Panic \<Rightarrow> Panic
      | Returns (instanceTypeName, price, errParse) \<Rightarrow>
          if errParse \<noteq> None
          then ondemandHydratePage ParseFloat rest (fst st, multierr_Append (snd st) errParse)
          else ondemandHydratePage ParseFloat rest ((fst st)(instanceTypeName \<mapsto> price), snd st))"

text \<open>\<open>cTime\<close> is the reading of the clock at line 286.\<close>

definition HydrateOndemandCache ::
  "(string \<times> string) list list \<Rightarrow> (string \<Rightarrow> error + float64) \<Rightarrow> Time \<Rightarrow> EC2Pricing \<Rightarrow>
     EC2Pricing \<times> error option outcome" where
  "HydrateOndemandCache partitions ParseFloat cTime p =
     (let regionDescription = getRegionForPricingAPI partitions p;
          productInput = hydrateProductInput regionDescription
      in case Pages
                (\<lambda>pricingOutput. ondemandHydratePage ParseFloat (PriceList pricingOutput))
                (fst (PricingClient p productInput))
                (snd (PricingClient p productInput))
                (Map.empty, None) of
           Panic \<Rightarrow> (p, Panic)
         | Returns ((newOnDemandCache, processingErr), errAPI) \<Rightarrow>
             if errAPI \<noteq> None then (p, Returns errAPI)
             else (p\<lparr>onDemandCache := newOnDemandCache, lastOnDemandCacheUTC := Some cTime\<rparr>,
                   Returns processingErr))"

section \<open>The formulas of the specification\<close>

text \<open>
  What the specification says the averager computes, to be compared with the code. The
  sum adds from the left, as the loops of the code do. The distance between two instants
  is the Duration that \<open>Time.Sub\<close> gives.
\<close>

definition f64_sum :: "float64 list \<Rightarrow> float64" where
  "f64_sum xs = fold (\<lambda>x acc. f64_add acc x) xs (Fin 0)"

definition spec_weightMinutes :: "spotPricingEntry list \<Rightarrow> nat \<Rightarrow> float64" where
  "spec_weightMinutes sortedEntries i =
     (if i = 0 then Fin 0
      else Minutes (Sub (Timestamp (sortedEntries ! (i - 1))) (Timestamp (sortedEntries ! i))))"

definition spec_timeWeightedAverage :: "spotPricingEntry list \<Rightarrow> float64" where
  "spec_timeWeightedAverage sortedEntries =
     f64_div
       (f64_sum (map (\<lambda>i. f64_mul (spec_weightMinutes sortedEntries i) (SpotPrice (sortedEntries ! i)))
                   [0 ..< length sortedEntries]))
       (Minutes (Sub (Timestamp (hd sortedEntries)) (Timestamp (last sortedEntries))))"


definition zoneSelected :: "string list \<Rightarrow> string \<Rightarrow> bool" where
  "zoneSelected availabilityZones zone =
     (availabilityZones = [] \<or> strings_Contains (strings_Join availabilityZones '' '') zone)"


definition parsedPrices ::
  "(string \<Rightarrow> error + float64) \<Rightarrow> JSONValue list \<Rightarrow> (string \<times> float64) list" where
  "parsedPrices ParseFloat docs =
     List.map_filter
       (\<lambda>priceDoc. case parseOndemandUnitPrice ParseFloat priceDoc of
          Returns (instanceTypeName, price, None) \<Rightarrow> Some (instanceTypeName, price)
        | other \<Rightarrow> None)
       docs"

definition parseErrors ::
  "(string \<Rightarrow> error + float64) \<Rightarrow> JSONValue list \<Rightarrow> error list" where
  "parseErrors ParseFloat docs =
     List.map_filter
       (\<lambda>priceDoc. case parseOndemandUnitPrice ParseFloat priceDoc of
          Returns (instanceTypeName, price, Some err) \<Rightarrow> Some err
        | other \<Rightarrow> None)
       docs"




section \<open>Example data\<close>

text \<open>
  A facade whose spot cache holds one instance type in two zones: the observations of
  \<open>us-east-1a\<close> average to 4 and those of \<open>us-east-1b\<close> to 8. Its clients deliver nothing.
\<close>

definition exampleSpotPricing :: EC2Pricing where
  "exampleSpotPricing =
     (New (\<lambda>input. ([], None)) (\<lambda>input. ([], None)) ''us-east-1'')
       \<lparr>spotCache :=
          [''m5.large'' \<mapsto>
             [(''us-east-1a'',
               [\<lparr>Timestamp = 3600000000000, SpotPrice = Fin 10\<rparr>,
                \<lparr>Timestamp = 0, SpotPrice = Fin 4\<rparr>]),
              (''us-east-1b'',
               [\<lparr>Timestamp = 0, SpotPrice = Fin 8\<rparr>,
                \<lparr>Timestamp = 3600000000000, SpotPrice = Fin 2\<rparr>])]]\<rparr>"

text \<open>
  An instance of the parameter \<open>ParseFloat\<close> for concrete evaluation: it reads a plain
  decimal literal (digits, with or without a fraction) and rejects every other string.
  \<open>strconv.ParseFloat\<close> accepts more (signs, exponents, hexadecimal, \<open>inf\<close>, \<open>nan\<close>); the
  theorems below hold for every \<open>ParseFloat\<close>.
\<close>

fun digitsValue :: "string \<Rightarrow> nat \<Rightarrow> nat option" where
  "digitsValue [] acc = Some acc"
| "digitsValue (c # cs) acc =
     (if 48 \<le> (of_char c :: nat) \<and> (of_char c :: nat) \<le> 57
      then digitsValue cs (10 * acc + (of_char c - 48))
      else None)"

definition decimalParseFloat :: "string \<Rightarrow> error + float64" where
  "decimalParseFloat s =
     (let intPart = takeWhile (\<lambda>c. c \<noteq> CHR ''.'') s;
          fracPart = drop 1 (dropWhile (\<lambda>c. c \<noteq> CHR ''.'') s)
      in if intPart = [] \<and> fracPart = [] then Inl (NumError s)
         else case (digitsValue intPart 0, digitsValue fracPart 0) of
                (Some i, Some f) \<Rightarrow> Inr (Fin (real i + real f / 10 ^ length fracPart))
              | other \<Rightarrow> Inl (NumError s))"

text \<open>
  The parts of a pricing record: the product with its instance type, the terms around
  one price dimension; and a well-formed record for an instance type and a USD price
  string.
\<close>

definition exampleProduct :: "string \<Rightarrow> string \<times> json" where
  "exampleProduct instanceType =
     (''product'', JObject [(''attributes'', JObject [(''instanceType'', JString instanceType)])])"

definition exampleTerms :: "json \<Rightarrow> string \<times> json" where
  "exampleTerms dimension =
     (''terms'',
      JObject [(''OnDemand'',
        JObject [(''JRTCKXETXF.JRTCKXETXF'',
          JObject [(''priceDimensions'',
            JObject [(''JRTCKXETXF.JRTCKXETXF.6YS6EN2CT7'', dimension)])])])])"

definition examplePriceDoc :: "string \<Rightarrow> string \<Rightarrow> JSONValue" where
  "examplePriceDoc instanceType usd =
     [exampleProduct instanceType,
      exampleTerms (JObject [(''pricePerUnit'', JObject [(''USD'', JString usd)])])]"

text \<open>
  A table of partitions; clients for a fresh facade (the pricing client answers the query
  for \<open>m5.large\<close> with one record and a hydration with four, two of which do not parse;
  the EC2 client answers the query with parsable records and a hydration with one price
  that is not a number); clients that deliver one page and then the given error; and a
  facade with earlier cache contents whose clients fail.
\<close>

definition examplePartitions :: "(string \<times> string) list list" where
  "examplePartitions =
     [[(''us-east-1'', ''US East (N. Virginia)''), (''eu-west-1'', ''EU (Ireland)'')],
      [(''cn-north-1'', ''China (Beijing)'')]]"

definition historyRecord :: "string \<Rightarrow> string \<Rightarrow> string \<Rightarrow> Time \<Rightarrow> ec2_SpotPrice" where
  "historyRecord instanceType zone price t =
     \<lparr>history_InstanceType = instanceType,
      history_AvailabilityZone = zone,
      history_SpotPrice = price,
      history_Timestamp = t\<rparr>"

definition examplePricingClient :: "GetProductsInput \<Rightarrow> GetProductsOutput paged" where
  "examplePricingClient input =
     (if termMatch ''instanceType'' ''m5.large'' \<in> set (Filters input)
      then ([\<lparr>PriceList = [examplePriceDoc ''m5.large'' ''0.096'']\<rparr>], None)
      else ([\<lparr>PriceList =
                [examplePriceDoc ''m5.large'' ''0.096'', examplePriceDoc ''c5.large'' ''N/A'']\<rparr>,
             \<lparr>PriceList =
                [[(''product'', JObject [])], examplePriceDoc ''m5.xlarge'' ''0.192'']\<rparr>],
            None))"

definition exampleEC2Client ::
  "DescribeSpotPriceHistoryInput \<Rightarrow> DescribeSpotPriceHistoryOutput paged" where
  "exampleEC2Client input =
     (if InstanceTypes input = [''m5.large'']
      then ([\<lparr>SpotPriceHistory =
                [historyRecord ''m5.large'' ''us-east-1a'' ''0.04'' 3600000000000,
                 historyRecord ''m5.large'' ''us-east-1b'' ''0.06'' 0]\<rparr>,
             \<lparr>SpotPriceHistory =
                [historyRecord ''m5.large'' ''us-east-1a'' ''0.02'' 0,
                 historyRecord ''m5.large'' ''us-east-1b'' ''0.08'' 3600000000000]\<rparr>],
            None)
      else ([\<lparr>SpotPriceHistory =
                [historyRecord ''m5.large'' ''us-east-1a'' ''0.04'' 3600000000000,
                 historyRecord ''c5.large'' ''us-east-1a'' ''N/A'' 0]\<rparr>,
             \<lparr>SpotPriceHistory =
                [historyRecord ''m5.large'' ''us-east-1a'' ''0.02'' 0]\<rparr>],
            None))"

definition examplePricing :: EC2Pricing where
  "examplePricing = New examplePricingClient exampleEC2Client ''us-east-1''"

definition oneDocClient :: "error option \<Rightarrow> GetProductsInput \<Rightarrow> GetProductsOutput paged" where
  "oneDocClient err input = ([\<lparr>PriceList = [examplePriceDoc ''m5.large'' ''0.096'']\<rparr>], err)"

definition oneRecordClient ::
  "error option \<Rightarrow> DescribeSpotPriceHistoryInput \<Rightarrow> DescribeSpotPriceHistoryOutput paged" where
  "oneRecordClient err input =
     ([\<lparr>SpotPriceHistory = [historyRecord ''m5.large'' ''us-east-1a'' ''0.04'' 0]\<rparr>], err)"

definition failingPricing :: EC2Pricing where
  "failingPricing =
     (New (oneDocClient (Some (awsError ''RequestTimeout'')))
          (oneRecordClient (Some (awsError ''RequestTimeout'')))
          ''us-east-1'')
       \<lparr>onDemandCache := [''t3.micro'' \<mapsto> Fin (13 / 1250)],
        spotCache := [''t3.micro'' \<mapsto> [(''us-east-1a'', [\<lparr>Timestamp = 0, SpotPrice = Fin (1 / 250)\<rparr>])]],
        lastOnDemandCacheUTC := Some 1000,
        lastSpotCacheUTC := Some 1000\<rparr>"

section \<open>Properties of the spot averager\<close>

lemma Sub_self: "Sub t t = 0"
  by (simp add: Sub_def minDuration_def maxDuration_def)

lemma Sub_exact: "minDuration \<le> t - u \<Longrightarrow> t - u \<le> maxDuration \<Longrightarrow> Sub t u = t - u"
  by (simp add: Sub_def)

lemma length_insert_After: "length (insert_After x ys) = Suc (length ys)"
  by (induction ys) auto

lemma mset_insert_After: "mset (insert_After x ys) = add_mset x (mset ys)"
  by (induction ys) auto

lemma set_insert_After: "set (insert_After x ys) = insert x (set ys)"
  by (induction ys) auto

lemma sorted_insert_After:
  "sorted_wrt (\<lambda>a b. Timestamp b \<le> Timestamp a) ys \<Longrightarrow>
   sorted_wrt (\<lambda>a b. Timestamp b \<le> Timestamp a) (insert_After x ys)"
  by (induction ys) (auto simp: set_insert_After After_def)

lemma fold_insert_After:
  "mset (fold insert_After xs acc) = mset xs + mset acc \<and>
   (sorted_wrt (\<lambda>a b. Timestamp b \<le> Timestamp a) acc \<longrightarrow>
    sorted_wrt (\<lambda>a b. Timestamp b \<le> Timestamp a) (fold insert_After xs acc))"
  by (induction xs arbitrary: acc) (auto simp: mset_insert_After sorted_insert_After)

lemma mset_sort_Slice_After: "mset (sort_Slice_After xs) = mset xs"
  by (simp add: sort_Slice_After_def fold_insert_After)

lemma sorted_sort_Slice_After:
  "sorted_wrt (\<lambda>a b. Timestamp b \<le> Timestamp a) (sort_Slice_After xs)"
  using fold_insert_After [of xs "[]"] by (simp add: sort_Slice_After_def)

lemma length_sort_Slice_After: "length (sort_Slice_After xs) = length xs"
  using mset_sort_Slice_After [of xs] by (metis size_mset)

lemma priceSum_loop:
  "fold (\<lambda>i priceSum.
           f64_add priceSum
             (f64_mul (Minutes (Sub (Timestamp (srt ! nat (max (int i - 1) 0))) (Timestamp (srt ! i))))
                (SpotPrice (srt ! i)))) is acc
   = fold (\<lambda>x acc. f64_add acc x)
       (map (\<lambda>i. f64_mul (spec_weightMinutes srt i) (SpotPrice (srt ! i))) is) acc"
proof (induction "is" arbitrary: acc)
  case Nil
  show ?case by simp
next
  case (Cons i "is")
  have w: "Minutes (Sub (Timestamp (srt ! nat (max (int i - 1) 0))) (Timestamp (srt ! i)))
           = spec_weightMinutes srt i"
  proof (cases "i = 0")
    case True
    then show ?thesis by (simp add: spec_weightMinutes_def Sub_self Minutes_def)
  next
    case False
    then have "nat (max (int i - 1) 0) = i - 1" by simp
    with False show ?thesis by (simp add: spec_weightMinutes_def)
  qed
  show ?case using Cons.IH by (simp add: w)
qed

lemma calculateSpotAggregate_weighted:
  assumes "es \<noteq> []"
  shows "calculateSpotAggregate es = spec_timeWeightedAverage (sort_Slice_After es)"
proof -
  let ?s = "sort_Slice_After es"
  have ne: "?s \<noteq> []" using assms length_sort_Slice_After [of es] by auto
  have h: "?s ! 0 = hd ?s" using ne by (simp add: hd_conv_nth)
  have l: "?s ! (length ?s - 1) = last ?s" using ne by (simp add: last_conv_nth)
  have "calculateSpotAggregate es =
      f64_div
        (fold (\<lambda>i priceSum.
           f64_add priceSum
             (f64_mul (Minutes (Sub (Timestamp (?s ! nat (max (int i - 1) 0))) (Timestamp (?s ! i))))
                (SpotPrice (?s ! i)))) [0 ..< length ?s] (Fin 0))
        (Minutes (Sub (Timestamp (?s ! 0)) (Timestamp (?s ! (length ?s - 1)))))"
    using assms by (simp add: calculateSpotAggregate_def Let_def)
  also have "\<dots> = spec_timeWeightedAverage ?s"
    unfolding priceSum_loop h l spec_timeWeightedAverage_def f64_sum_def ..
  finally show ?thesis .
qed



lemmas eval_defs = calculateSpotAggregate_def sort_Slice_After_def After_def Sub_def Minutes_def
  minDuration_def maxDuration_def Let_def averageZones_def cachedZonePriceEntries_def
  GetSpotInstanceTypeNDayAvgCost_def exampleSpotPricing_def New_def

text \<open>
  Claim C2 says that a zone with one observation averages to that observation's price.
  The code has no such case: the only duration is zero, so the sum is \<open>0 * price\<close> and the
  result is that sum over a total duration of zero, which is NaN whatever the price.
\<close>

theorem single_observation_average_is_NaN:
  "calculateSpotAggregate [\<lparr>Timestamp = t0, SpotPrice = price\<rparr>] = NaN"
  by (cases price) (simp_all add: calculateSpotAggregate_def sort_Slice_After_def Sub_def
      Minutes_def minDuration_def maxDuration_def Let_def)

text \<open>
  Claim C1 says a zone contributes exactly when its name is a member of the filter. The
  code asks whether the filter's names, joined by spaces, contain the zone's name: with
  the filter \<open>us-east-1ab\<close>, the zone \<open>us-east-1a\<close> (average 4) is selected though it is not
  in the filter, and the query returns its average.
\<close>

theorem substring_zone_match:
  "snd (GetSpotInstanceTypeNDayAvgCost ParseFloat now exampleSpotPricing ''m5.large''
          [''us-east-1ab''] days) = Returns (Fin 4, None) \<and>
   ''us-east-1a'' \<notin> set [''us-east-1ab'']"
  by (simp add: eval_defs)

text \<open>
  The example of the specification goes the other way and holds on the code: the filter
  \<open>us-east-1a\<close> does not select the zone \<open>us-east-1ab\<close>.
\<close>

lemma longer_zone_name_not_selected:
  "\<not> zoneSelected [''us-east-1a''] ''us-east-1ab'' \<and> zoneSelected [''us-east-1ab''] ''us-east-1a''"
  by (simp add: zoneSelected_def)

text \<open>
  Claim C3 says a filter that selects no zone is answered by an error. The code divides
  the empty sum by the count zero and returns NaN with a nil error.
\<close>

theorem no_zone_selected_is_NaN:
  "snd (GetSpotInstanceTypeNDayAvgCost ParseFloat now exampleSpotPricing ''m5.large''
          [''us-west-2a''] days) = Returns (NaN, None)"
  by (simp add: eval_defs)

text \<open>
  Claim C4: for a zone with at least two observations, the slice is sorted newest first
  (a permutation of the observations), and the result is the specification's
  time-weighted average of the sorted slice: weight zero for the newest observation, the
  minutes to the next newer observation for every other, and the sum of weight times
  price over the minutes from the oldest to the newest. Observations of 10 now and 6 an
  hour ago average to 6.
\<close>

theorem zone_average_is_time_weighted:
  assumes "2 \<le> length es"
  shows "sorted_wrt (\<lambda>a b. Timestamp b \<le> Timestamp a) (sort_Slice_After es) \<and>
         mset (sort_Slice_After es) = mset es \<and>
         calculateSpotAggregate es = spec_timeWeightedAverage (sort_Slice_After es) \<and>
         calculateSpotAggregate
           [\<lparr>Timestamp = now, SpotPrice = Fin 10\<rparr>,
            \<lparr>Timestamp = now - 60 * 60000000000, SpotPrice = Fin 6\<rparr>] = Fin 6"
proof -
  from assms have "es \<noteq> []" by auto
  then have "calculateSpotAggregate es = spec_timeWeightedAverage (sort_Slice_After es)"
    by (rule calculateSpotAggregate_weighted)
  moreover have "calculateSpotAggregate
           [\<lparr>Timestamp = now, SpotPrice = Fin 10\<rparr>,
            \<lparr>Timestamp = now - 60 * 60000000000, SpotPrice = Fin 6\<rparr>] = Fin 6"
    by (simp add: calculateSpotAggregate_def sort_Slice_After_def After_def Sub_def Minutes_def
        minDuration_def maxDuration_def Let_def)
  ultimately show ?thesis
    by (simp add: sorted_sort_Slice_After mset_sort_Slice_After)
qed

text \<open>
  The theorem at three observations: 3 at minute 120, 9 at minute 0 and 5 at minute 30
  average to \<open>(90 * 5 + 30 * 9) / 120 = 6\<close>.
\<close>

theorem zone_average_is_time_weighted_witness:
  "2 \<le> length [\<lparr>Timestamp = 7200000000000, SpotPrice = Fin 3\<rparr>,
                 \<lparr>Timestamp = 0, SpotPrice = Fin 9\<rparr>,
                 \<lparr>Timestamp = 1800000000000, SpotPrice = Fin 5\<rparr>] \<and>
   sort_Slice_After [\<lparr>Timestamp = 7200000000000, SpotPrice = Fin 3\<rparr>,
                 \<lparr>Timestamp = 0, SpotPrice = Fin 9\<rparr>,
                 \<lparr>Timestamp = 1800000000000, SpotPrice = Fin 5\<rparr>]
     = [\<lparr>Timestamp = 7200000000000, SpotPrice = Fin 3\<rparr>,
        \<lparr>Timestamp = 1800000000000, SpotPrice = Fin 5\<rparr>,
        \<lparr>Timestamp = 0, SpotPrice = Fin 9\<rparr>] \<and>
   calculateSpotAggregate [\<lparr>Timestamp = 7200000000000, SpotPrice = Fin 3\<rparr>,
                 \<lparr>Timestamp = 0, SpotPrice = Fin 9\<rparr>,
                 \<lparr>Timestamp = 1800000000000, SpotPrice = Fin 5\<rparr>]
     = spec_timeWeightedAverage [\<lparr>Timestamp = 7200000000000, SpotPrice = Fin 3\<rparr>,
        \<lparr>Timestamp = 1800000000000, SpotPrice = Fin 5\<rparr>,
        \<lparr>Timestamp = 0, SpotPrice = Fin 9\<rparr>] \<and>
   spec_timeWeightedAverage [\<lparr>Timestamp = 7200000000000, SpotPrice = Fin 3\<rparr>,
        \<lparr>Timestamp = 1800000000000, SpotPrice = Fin 5\<rparr>,
        \<lparr>Timestamp = 0, SpotPrice = Fin 9\<rparr>] = Fin 6"
proof -
  let ?es = "[\<lparr>Timestamp = 7200000000000, SpotPrice = Fin 3\<rparr>,
                 \<lparr>Timestamp = 0, SpotPrice = Fin 9\<rparr>,
                 \<lparr>Timestamp = 1800000000000, SpotPrice = Fin 5\<rparr>]"
  have len: "2 \<le> length ?es" by simp
  have srt: "sort_Slice_After ?es = [\<lparr>Timestamp = 7200000000000, SpotPrice = Fin 3\<rparr>,
        \<lparr>Timestamp = 1800000000000, SpotPrice = Fin 5\<rparr>,
        \<lparr>Timestamp = 0, SpotPrice = Fin 9\<rparr>]"
    by (simp add: sort_Slice_After_def After_def)
  have tw: "spec_timeWeightedAverage [\<lparr>Timestamp = 7200000000000, SpotPrice = Fin 3\<rparr>,
        \<lparr>Timestamp = 1800000000000, SpotPrice = Fin 5\<rparr>,
        \<lparr>Timestamp = 0, SpotPrice = Fin 9\<rparr>] = Fin 6"
    by (simp add: spec_timeWeightedAverage_def spec_weightMinutes_def f64_sum_def Sub_def Minutes_def
        minDuration_def maxDuration_def upt_rec)
  from zone_average_is_time_weighted [OF len] srt tw len show ?thesis by simp
qed

section \<open>Properties of the parser\<close>

lemma parse_examplePriceDoc:
  "parseOndemandUnitPrice ParseFloat (examplePriceDoc instanceType usd) =
     (case ParseFloat usd of
        Inl err \<Rightarrow> Returns (instanceType, Fin (- 1),
          Some (errorString ''Could not convert price per unit in USD to a float64''))
      | Inr price \<Rightarrow> Returns (instanceType, price, None))"
  by (simp add: parseOndemandUnitPrice_def examplePriceDoc_def parseDimension_def
      exampleProduct_def exampleTerms_def)

text \<open>
  Every error return of the parser, each with its own message and with the instance type
  name when it has been read; and records on which a type assertion panics.
\<close>

lemma parser_stage_errors:
  "parseOndemandUnitPrice ParseFloat [(''product'', JObject [])] =
     Returns ('''', Fin (- 1), Some (errorString ''Unable to find product attributes''))"
  "parseOndemandUnitPrice ParseFloat [(''product'', JObject [(''attributes'', JObject [])])] =
     Returns ('''', Fin (- 1),
       Some (errorString ''Unable to find instance type name from product attributes''))"
  "parseOndemandUnitPrice ParseFloat
     [(''product'', JObject [(''attributes'', JObject [(''instanceType'', JNumber 5)])])] =
     Returns ('''', Fin (- 1),
       Some (errorString ''Unable to find instance type name from product attributes''))"
  "parseOndemandUnitPrice ParseFloat [exampleProduct name] =
     Returns (name, Fin (- 1), Some (errorString ''Unable to find pricing terms''))"
  "parseOndemandUnitPrice ParseFloat [exampleProduct name, (''terms'', JObject [])] =
     Returns (name, Fin (- 1), Some (errorString ''Unable to find on-demand pricing terms''))"
  "parseOndemandUnitPrice ParseFloat
     [exampleProduct name, (''terms'', JObject [(''OnDemand'', JObject [(t, JObject [])])])] =
     Returns (name, Fin (- 1), Some (errorString ''Unable to find on-demand pricing dimensions''))"
  "parseOndemandUnitPrice ParseFloat [exampleProduct name, exampleTerms (JObject [])] =
     Returns (name, Fin (- 1),
       Some (errorString ''Unable to find on-demand price per unit in pricing dimensions''))"
  "parseOndemandUnitPrice ParseFloat
     [exampleProduct name, exampleTerms (JObject [(''pricePerUnit'', JObject [])])] =
     Returns (name, Fin (- 1),
       Some (errorString ''Unable to find on-demand price per unit in USD''))"
  "ParseFloat usd = Inl err \<Longrightarrow>
   parseOndemandUnitPrice ParseFloat
     [exampleProduct name,
      exampleTerms (JObject [(''pricePerUnit'', JObject [(''USD'', JString usd)])])] =
     Returns (name, Fin (- 1),
       Some (errorString ''Could not convert price per unit in USD to a float64''))"
  "parseOndemandUnitPrice ParseFloat
     [exampleProduct name, (''terms'', JObject [(''OnDemand'', JObject [])])] =
     Returns (name, Fin (- 1), Some (errorString ''Unable to parse pricing doc''))"
  by (simp_all add: parseOndemandUnitPrice_def parseDimension_def exampleProduct_def
      exampleTerms_def)

lemma parser_panics:
  "parseOndemandUnitPrice ParseFloat [] = Panic"
  "parseOndemandUnitPrice ParseFloat [(''product'', JNull)] = Panic"
  "parseOndemandUnitPrice ParseFloat [(''product'', JObject [(''attributes'', JNull)])] = Panic"
  "parseOndemandUnitPrice ParseFloat [exampleProduct name, (''terms'', JNull)] = Panic"
  "parseOndemandUnitPrice ParseFloat
     [exampleProduct name, (''terms'', JObject [(''OnDemand'', JArray [])])] = Panic"
  "parseOndemandUnitPrice ParseFloat [exampleProduct name, exampleTerms JNull] = Panic"
  "parseOndemandUnitPrice ParseFloat
     [exampleProduct name, exampleTerms (JObject [(''pricePerUnit'', JString ''0.1'')])] = Panic"
  "parseOndemandUnitPrice ParseFloat
     [exampleProduct name,
      exampleTerms (JObject [(''pricePerUnit'', JObject [(''USD'', JNumber 1)])])] = Panic"
  by (simp_all add: parseOndemandUnitPrice_def parseDimension_def exampleProduct_def
      exampleTerms_def)

text \<open>
  Claim C6 says the parser is total and answers every malformed record with a ParseError.
  The code asserts the type of \<open>priceList["product"]\<close> without the comma-ok form: a record
  without a product (here one that only has terms) makes the parser panic.
\<close>

theorem parser_panics_without_product:
  "parseOndemandUnitPrice ParseFloat [(''terms'', JObject [])] = Panic"
  by (simp add: parseOndemandUnitPrice_def)

section \<open>Properties of spot queries\<close>

lemma Pages_continue:
  "Pages (\<lambda>page st. Returns (f page st, True)) pages err s = Returns (fold f pages s, err)"
  by (induction pages arbitrary: s) auto



lemmas example_defs = examplePricing_def failingPricing_def New_def examplePricingClient_def
  exampleEC2Client_def historyRecord_def examplePartitions_def oneDocClient_def
  oneRecordClient_def



section \<open>Properties of on-demand queries\<close>

lemma ondemandQueryPage_clean:
  "list_all (\<lambda>d. \<exists>n pr. parseOndemandUnitPrice pf d = Returns (n, pr, None)) docs \<Longrightarrow>
   parseOndemandUnitPrice pf priceDoc = Returns (name, price, None) \<Longrightarrow>
   ondemandQueryPage pf (docs @ [priceDoc]) st = Returns ((price, snd st), False)"
proof (induction docs arbitrary: st)
  case Nil
  then show ?case by simp
next
  case (Cons d docs)
  from Cons.prems(1) obtain n pr where d: "parseOndemandUnitPrice pf d = Returns (n, pr, None)"
    by auto
  from Cons.prems(1)
  have rest: "list_all (\<lambda>d. \<exists>n pr. parseOndemandUnitPrice pf d = Returns (n, pr, None)) docs"
    by simp
  show ?case using d Cons.IH [OF rest Cons.prems(2), of "(pr, snd st)"] by simp
qed

text \<open>
  Claim C10: when the instance type is not cached and the fetch ends without an error
  and without a record, the query returns the price -1 and a nil error.
\<close>

theorem empty_fetch_returns_sentinel:
  assumes "onDemandCache p instanceType = None"
    and "PricingClient p (queryProductInput (getRegionForPricingAPI partitions p) instanceType)
           = (pages, None)"
    and "list_all (\<lambda>page. PriceList page = []) pages"
  shows "GetOndemandInstanceTypeCost partitions ParseFloat p instanceType
           = (p, Returns (Fin (- 1), None))"
proof -
  have "Pages (\<lambda>pricingOutput. ondemandQueryPage ParseFloat (PriceList pricingOutput))
          pages None (Fin (- 1), None) = Returns ((Fin (- 1), None), None)"
    using assms(3) by (cases pages) simp_all
  with assms(1,2) show ?thesis
    by (simp add: GetOndemandInstanceTypeCost_def)
qed

text \<open>
  The theorem at a fresh facade whose pricing client delivers one page without a record.
\<close>

theorem empty_fetch_returns_sentinel_witness:
  "onDemandCache
     (New (\<lambda>input. ([\<lparr>PriceList = []\<rparr>], None)) exampleEC2Client ''eu-west-1'')
     ''m5.large'' = None \<and>
   GetOndemandInstanceTypeCost examplePartitions decimalParseFloat
     (New (\<lambda>input. ([\<lparr>PriceList = []\<rparr>], None)) exampleEC2Client ''eu-west-1'')
     ''m5.large''
     = (New (\<lambda>input. ([\<lparr>PriceList = []\<rparr>], None)) exampleEC2Client ''eu-west-1'',
        Returns (Fin (- 1), None))"
proof -
  let ?p = "New (\<lambda>input. ([\<lparr>PriceList = []\<rparr>], None)) exampleEC2Client ''eu-west-1''"
  have a: "onDemandCache ?p ''m5.large'' = None"
    by (simp add: New_def)
  have b: "PricingClient ?p
     (queryProductInput (getRegionForPricingAPI examplePartitions ?p) ''m5.large'')
     = ([\<lparr>PriceList = []\<rparr>], None)"
    by (simp add: New_def)
  have c: "list_all (\<lambda>page. PriceList page = []) [\<lparr>PriceList = []\<rparr>]" by simp
  from empty_fetch_returns_sentinel [OF a b c, of decimalParseFloat] a
  show ?thesis by simp
qed

text \<open>
  Claim C9 says a query that misses the cache adds the fetched price to it. The code
  never writes the cache in a query: on a fresh facade the query for \<open>m5.large\<close> returns
  the fetched price 0.096, and the cache still has no entry for \<open>m5.large\<close>.
\<close>

theorem ondemand_query_does_not_populate_cache:
  "onDemandCache examplePricing ''m5.large'' = None \<and>
   snd (GetOndemandInstanceTypeCost examplePartitions decimalParseFloat examplePricing ''m5.large'')
     = Returns (Fin (12 / 125), None) \<and>
   onDemandCache
     (fst (GetOndemandInstanceTypeCost examplePartitions decimalParseFloat examplePricing
             ''m5.large''))
     ''m5.large'' = None"
  by (simp add: GetOndemandInstanceTypeCost_def example_defs queryProductInput_def
      parse_examplePriceDoc decimalParseFloat_def)

text \<open>
  Claim C9 as amended: a query leaves the facade as it was, so neither cache and neither
  freshness timestamp changes; and a query that misses the cache and whose first page
  parses without an error returns the price of that page's last record.
\<close>

theorem ondemand_query_keeps_state:
  "fst (GetOndemandInstanceTypeCost partitions ParseFloat p instanceType) = p \<and>
   (onDemandCache p instanceType = None \<and>
    PricingClient p (queryProductInput (getRegionForPricingAPI partitions p) instanceType)
      = (page # rest, err) \<and>
    PriceList page = docs @ [priceDoc] \<and>
    list_all (\<lambda>d. \<exists>n pr. parseOndemandUnitPrice ParseFloat d = Returns (n, pr, None)) docs \<and>
    parseOndemandUnitPrice ParseFloat priceDoc = Returns (name, price, None) \<longrightarrow>
    snd (GetOndemandInstanceTypeCost partitions ParseFloat p instanceType)
      = Returns (price, None))"
proof (intro conjI impI)
  show "fst (GetOndemandInstanceTypeCost partitions ParseFloat p instanceType) = p"
    by (simp add: GetOndemandInstanceTypeCost_def Let_def
        split: option.splits outcome.splits prod.splits)
next
  assume a: "onDemandCache p instanceType = None \<and>
    PricingClient p (queryProductInput (getRegionForPricingAPI partitions p) instanceType)
      = (page # rest, err) \<and>
    PriceList page = docs @ [priceDoc] \<and>
    list_all (\<lambda>d. \<exists>n pr. parseOndemandUnitPrice ParseFloat d = Returns (n, pr, None)) docs \<and>
    parseOndemandUnitPrice ParseFloat priceDoc = Returns (name, price, None)"
  then have "ondemandQueryPage ParseFloat (PriceList page) (Fin (- 1), None)
             = Returns ((price, None), False)"
    using ondemandQueryPage_clean [of ParseFloat docs priceDoc name price "(Fin (- 1), None)"]
    by simp
  then have "Pages (\<lambda>pricingOutput. ondemandQueryPage ParseFloat (PriceList pricingOutput))
          (page # rest) err (Fin (- 1), None) = Returns ((price, None), None)"
    by simp
  with a show "snd (GetOndemandInstanceTypeCost partitions ParseFloat p instanceType)
      = Returns (price, None)"
    by (simp add: GetOndemandInstanceTypeCost_def)
qed

text \<open>
  The amended claim at the fresh facade.
\<close>

theorem ondemand_query_keeps_state_witness:
  "onDemandCache examplePricing ''m5.large'' = None \<and>
   fst (GetOndemandInstanceTypeCost examplePartitions decimalParseFloat examplePricing ''m5.large'')
     = examplePricing \<and>
   snd (GetOndemandInstanceTypeCost examplePartitions decimalParseFloat examplePricing ''m5.large'')
     = Returns (Fin (12 / 125), None)"
proof -
  have a: "onDemandCache examplePricing ''m5.large'' = None"
    by (simp add: example_defs)
  have b: "PricingClient examplePricing
      (queryProductInput (getRegionForPricingAPI examplePartitions examplePricing) ''m5.large'')
      = (\<lparr>PriceList = [examplePriceDoc ''m5.large'' ''0.096'']\<rparr> # [], None)"
    by (simp add: example_defs queryProductInput_def)
  have c: "PriceList \<lparr>PriceList = [examplePriceDoc ''m5.large'' ''0.096'']\<rparr>
           = [] @ [examplePriceDoc ''m5.large'' ''0.096'']"
    by simp
  have d: "parseOndemandUnitPrice decimalParseFloat (examplePriceDoc ''m5.large'' ''0.096'')
           = Returns (''m5.large'', Fin (12 / 125), None)"
    by (simp add: parse_examplePriceDoc decimalParseFloat_def)
  from ondemand_query_keeps_state
         [of examplePartitions decimalParseFloat examplePricing "''m5.large''"
             "\<lparr>PriceList = [examplePriceDoc ''m5.large'' ''0.096'']\<rparr>" "[]" None "[]"
             "examplePriceDoc ''m5.large'' ''0.096''" "''m5.large''" "Fin (12 / 125)"]
       a b c d
  show ?thesis by simp
qed

section \<open>Properties of hydration\<close>



lemma map_filter_append: "List.map_filter f (xs @ ys) = List.map_filter f xs @ List.map_filter f ys"
  by (simp add: List.map_filter_def)

lemma map_add_rev_Cons:
  "m ++ map_of (rev ((k, v) # xs)) = m(k \<mapsto> v) ++ map_of (rev xs)"
  by (rule ext) (simp add: map_add_def split: option.splits)

lemma ondemandHydratePage_fold:
  "list_all (\<lambda>d. parseOndemandUnitPrice pf d \<noteq> Panic) docs \<Longrightarrow>
   ondemandHydratePage pf docs st =
     Returns ((fst st ++ map_of (rev (parsedPrices pf docs)),
               fold (\<lambda>e acc. multierr_Append acc (Some e)) (parseErrors pf docs) (snd st)),
              True)"
proof (induction docs arbitrary: st)
  case Nil
  show ?case by (simp add: parsedPrices_def parseErrors_def)
next
  case (Cons d docs)
  from Cons.prems obtain n price errParse
    where d: "parseOndemandUnitPrice pf d = Returns (n, price, errParse)"
    by (cases "parseOndemandUnitPrice pf d") auto
  from Cons.prems have rest: "list_all (\<lambda>d. parseOndemandUnitPrice pf d \<noteq> Panic) docs"
    by simp
  show ?case
  proof (cases errParse)
    case None
    with d have pp: "parsedPrices pf (d # docs) = (n, price) # parsedPrices pf docs"
      and pe: "parseErrors pf (d # docs) = parseErrors pf docs"
      by (simp_all add: parsedPrices_def parseErrors_def List.map_filter_simps)
    have "ondemandHydratePage pf (d # docs) st =
          ondemandHydratePage pf docs ((fst st)(n \<mapsto> price), snd st)"
      using d None by simp
    also have "\<dots> = Returns (((fst st)(n \<mapsto> price) ++ map_of (rev (parsedPrices pf docs)),
               fold (\<lambda>e acc. multierr_Append acc (Some e)) (parseErrors pf docs) (snd st)),
              True)"
      using Cons.IH [OF rest, of "((fst st)(n \<mapsto> price), snd st)"]
      by (simp only: fst_conv snd_conv)
    finally show ?thesis
      unfolding pp pe map_add_rev_Cons .
  next
    case (Some e)
    with d have "parsedPrices pf (d # docs) = parsedPrices pf docs"
      and "parseErrors pf (d # docs) = e # parseErrors pf docs"
      by (simp_all add: parsedPrices_def parseErrors_def List.map_filter_simps)
    with d Some Cons.IH [OF rest] show ?thesis by simp
  qed
qed

lemma parsedPrices_append:
  "parsedPrices pf (xs @ ys) = parsedPrices pf xs @ parsedPrices pf ys"
  by (simp add: parsedPrices_def map_filter_append)

lemma parseErrors_append:
  "parseErrors pf (xs @ ys) = parseErrors pf xs @ parseErrors pf ys"
  by (simp add: parseErrors_def map_filter_append)

lemma ondemandHydrate_Pages:
  "list_all (\<lambda>d. parseOndemandUnitPrice pf d \<noteq> Panic) (concat (map PriceList pages)) \<Longrightarrow>
   Pages (\<lambda>pricingOutput. ondemandHydratePage pf (PriceList pricingOutput)) pages err st =
     Returns ((fst st ++ map_of (rev (parsedPrices pf (concat (map PriceList pages)))),
               fold (\<lambda>e acc. multierr_Append acc (Some e))
                 (parseErrors pf (concat (map PriceList pages))) (snd st)),
              err)"
proof (induction pages arbitrary: st)
  case Nil
  show ?case by (simp add: parsedPrices_def parseErrors_def)
next
  case (Cons page pages)
  from Cons.prems
  have a: "list_all (\<lambda>d. parseOndemandUnitPrice pf d \<noteq> Panic) (PriceList page)"
    and b: "list_all (\<lambda>d. parseOndemandUnitPrice pf d \<noteq> Panic) (concat (map PriceList pages))"
    by simp_all
  show ?case
    by (simp add: ondemandHydratePage_fold [OF a] Cons.IH [OF b] parsedPrices_append
        parseErrors_append)
qed

lemma ondemandHydratePage_continues:
  "ondemandHydratePage pf docs st = Panic \<or>
   (\<exists>s. ondemandHydratePage pf docs st = Returns (s, True))"
proof (induction docs arbitrary: st)
  case Nil
  show ?case by simp
next
  case (Cons d docs)
  show ?case
  proof (cases "parseOndemandUnitPrice pf d")
    case Panic
    then show ?thesis by simp
  next
    case (Returns r)
    obtain n price errParse where r: "r = (n, price, errParse)" by (cases r) auto
    show ?thesis
      using Returns r Cons.IH [of "(fst st, multierr_Append (snd st) errParse)"]
        Cons.IH [of "((fst st)(n \<mapsto> price), snd st)"]
      by simp
  qed
qed

lemma ondemandHydrate_Pages_err:
  "Pages (\<lambda>pricingOutput. ondemandHydratePage pf (PriceList pricingOutput)) pages err st = Panic \<or>
   (\<exists>s. Pages (\<lambda>pricingOutput. ondemandHydratePage pf (PriceList pricingOutput)) pages err st
          = Returns (s, err))"
proof (induction pages arbitrary: st)
  case Nil
  show ?case by simp
next
  case (Cons page pages)
  from ondemandHydratePage_continues [of pf "PriceList page" st]
  show ?case
  proof
    assume "ondemandHydratePage pf (PriceList page) st = Panic"
    then show ?thesis by simp
  next
    assume "\<exists>s. ondemandHydratePage pf (PriceList page) st = Returns (s, True)"
    then obtain s where "ondemandHydratePage pf (PriceList page) st = Returns (s, True)" ..
    with Cons.IH [of s] show ?thesis by simp
  qed
qed









text \<open>
  Claim C7: when the fetch fails, \<open>HydrateSpotCache\<close> returns the transport error and the
  facade is unchanged; \<open>HydrateOndemandCache\<close> leaves the facade unchanged too and returns
  the transport error, unless a record delivered before the failure crashes the parser
  (then the call panics). After a \<open>HydrateOndemandCache\<close> that returns nil,
  \<open>LastOnDemandCacheUTC\<close> is the clock reading of line 286, which is at or after the start of
  the call when the clock has not been set back in between.
\<close>

theorem transport_failure_keeps_cache:
  "(snd (EC2Client p (spotPriceHistoryInput now days [])) = Some err \<longrightarrow>
      HydrateSpotCache ParseFloat now cTime p days = (p, Returns (Some err))) \<and>
   (snd (PricingClient p (hydrateProductInput (getRegionForPricingAPI partitions p))) = Some err \<longrightarrow>
      fst (HydrateOndemandCache partitions ParseFloat cTime p) = p \<and>
      (snd (HydrateOndemandCache partitions ParseFloat cTime p) = Returns (Some err) \<or>
       snd (HydrateOndemandCache partitions ParseFloat cTime p) = Panic) \<and>
      (list_all (\<lambda>d. parseOndemandUnitPrice ParseFloat d \<noteq> Panic)
         (concat (map PriceList
            (fst (PricingClient p (hydrateProductInput (getRegionForPricingAPI partitions p)))))) \<longrightarrow>
       snd (HydrateOndemandCache partitions ParseFloat cTime p) = Returns (Some err))) \<and>
   (HydrateOndemandCache partitions ParseFloat cTime p = (p', Returns None) \<and> callStart \<le> cTime \<longrightarrow>
      (\<exists>t. LastOnDemandCacheUTC p' = Some t \<and> callStart \<le> t))"
proof (intro conjI impI)
  assume "snd (EC2Client p (spotPriceHistoryInput now days [])) = Some err"
  then show "HydrateSpotCache ParseFloat now cTime p days = (p, Returns (Some err))"
    by (simp add: HydrateSpotCache_def Pages_continue split: prod.splits)
next
  let ?input = "hydrateProductInput (getRegionForPricingAPI partitions p)"
  let ?P = "Pages (\<lambda>pricingOutput. ondemandHydratePage ParseFloat (PriceList pricingOutput))
              (fst (PricingClient p ?input)) (snd (PricingClient p ?input)) (Map.empty, None)"
  assume a: "snd (PricingClient p ?input) = Some err"
  from ondemandHydrate_Pages_err
  have alt: "?P = Panic \<or> (\<exists>s. ?P = Returns (s, snd (PricingClient p ?input)))" .
  from alt a show "fst (HydrateOndemandCache partitions ParseFloat cTime p) = p"
    by (auto simp: HydrateOndemandCache_def)
  from alt a show "snd (HydrateOndemandCache partitions ParseFloat cTime p) = Returns (Some err) \<or>
       snd (HydrateOndemandCache partitions ParseFloat cTime p) = Panic"
    by (auto simp: HydrateOndemandCache_def)
  assume "list_all (\<lambda>d. parseOndemandUnitPrice ParseFloat d \<noteq> Panic)
         (concat (map PriceList (fst (PricingClient p ?input))))"
  then have "\<exists>s. ?P = Returns (s, snd (PricingClient p ?input))"
    by (simp add: ondemandHydrate_Pages)
  with a show "snd (HydrateOndemandCache partitions ParseFloat cTime p) = Returns (Some err)"
    by (auto simp: HydrateOndemandCache_def)
next
  assume a: "HydrateOndemandCache partitions ParseFloat cTime p = (p', Returns None) \<and> callStart \<le> cTime"
  then have "lastOnDemandCacheUTC p' = Some cTime"
    by (auto simp: HydrateOndemandCache_def Let_def
        split: outcome.splits prod.splits if_splits)
  with a show "\<exists>t. LastOnDemandCacheUTC p' = Some t \<and> callStart \<le> t"
    by (simp add: LastOnDemandCacheUTC_def)
qed

text \<open>
  The theorem at a facade with earlier cache contents whose clients fail after one page,
  and at a fresh facade whose pricing client succeeds.
\<close>

theorem transport_failure_keeps_cache_witness:
  "snd (EC2Client failingPricing (spotPriceHistoryInput 1000 30 []))
     = Some (awsError ''RequestTimeout'') \<and>
   HydrateSpotCache decimalParseFloat 1000 2000 failingPricing 30
     = (failingPricing, Returns (Some (awsError ''RequestTimeout''))) \<and>
   fst (HydrateOndemandCache examplePartitions decimalParseFloat 2000 failingPricing)
     = failingPricing \<and>
   snd (HydrateOndemandCache examplePartitions decimalParseFloat 2000 failingPricing)
     = Returns (Some (awsError ''RequestTimeout'')) \<and>
   onDemandCache failingPricing ''t3.micro'' = Some (Fin (13 / 1250)) \<and>
   LastOnDemandCacheUTC failingPricing = Some 1000 \<and>
   snd (HydrateOndemandCache examplePartitions decimalParseFloat 2000
          (New (oneDocClient None) (oneRecordClient None) ''us-east-1'')) = Returns None \<and>
   (\<exists>t. LastOnDemandCacheUTC
          (fst (HydrateOndemandCache examplePartitions decimalParseFloat 2000
                  (New (oneDocClient None) (oneRecordClient None) ''us-east-1''))) = Some t \<and>
        1500 \<le> t)"
proof -
  let ?e = "awsError ''RequestTimeout''"
  let ?ok = "New (oneDocClient None) (oneRecordClient None) ''us-east-1''"
  have a: "snd (EC2Client failingPricing (spotPriceHistoryInput 1000 30 [])) = Some ?e"
    by (simp add: example_defs)
  have b: "snd (PricingClient failingPricing
             (hydrateProductInput (getRegionForPricingAPI examplePartitions failingPricing)))
           = Some ?e"
    by (simp add: example_defs)
  have c: "list_all (\<lambda>d. parseOndemandUnitPrice decimalParseFloat d \<noteq> Panic)
         (concat (map PriceList
            (fst (PricingClient failingPricing
               (hydrateProductInput (getRegionForPricingAPI examplePartitions failingPricing))))))"
    by (simp add: example_defs parse_examplePriceDoc decimalParseFloat_def)
  have d: "HydrateOndemandCache examplePartitions decimalParseFloat 2000 ?ok
           = (fst (HydrateOndemandCache examplePartitions decimalParseFloat 2000 ?ok), Returns None)"
    by (simp add: HydrateOndemandCache_def example_defs parse_examplePriceDoc decimalParseFloat_def)
  have e: "onDemandCache failingPricing ''t3.micro'' = Some (Fin (13 / 1250))"
    "LastOnDemandCacheUTC failingPricing = Some 1000"
    by (simp_all add: example_defs LastOnDemandCacheUTC_def)
  have f: "(1500 :: int) \<le> 2000" by simp
  note t1 = transport_failure_keeps_cache
    [of failingPricing 1000 30 ?e decimalParseFloat 2000 examplePartitions]
  note t2 = transport_failure_keeps_cache
    [of ?ok 1000 30 ?e decimalParseFloat 2000 examplePartitions
        "fst (HydrateOndemandCache examplePartitions decimalParseFloat 2000 ?ok)" 1500]
  from t1 a b c have g: "HydrateSpotCache decimalParseFloat 1000 2000 failingPricing 30
     = (failingPricing, Returns (Some ?e))"
    "fst (HydrateOndemandCache examplePartitions decimalParseFloat 2000 failingPricing)
     = failingPricing"
    "snd (HydrateOndemandCache examplePartitions decimalParseFloat 2000 failingPricing)
     = Returns (Some ?e)"
    by blast+
  from t2 d f have h: "\<exists>t. LastOnDemandCacheUTC
          (fst (HydrateOndemandCache examplePartitions decimalParseFloat 2000 ?ok)) = Some t \<and>
        1500 \<le> t"
    by blast
  from d have i: "snd (HydrateOndemandCache examplePartitions decimalParseFloat 2000 ?ok)
                  = Returns None"
    by (metis snd_conv)
  from a g e h i show ?thesis by blast
qed

end
